theory Spec2Isabelle
  imports Complex_Main "HOL-Library.Word" "HOL-Library.Monad_Syntax"
begin

section \<open>The caching DNS forwarder of \<open>src/DNS/dns_server.py\<close>\<close>

text \<open>
  The server is modelled function by function. Everything a function does beyond
  returning a value is explicit: the shared dictionary \<open>cache\<close> is passed in and
  returned, every acquisition and release of \<open>cache_lock\<close>, every socket operation
  and every \<open>print\<close> is an event of the trace the function returns, and an exception
  is the \<open>Inl\<close> of the result. What the outside world decides (the clock, whether a
  socket call raises, which datagram arrives) is an input of the model.
\<close>

subsection \<open>Data\<close>

type_synonym byte = "8 word"
type_synonym bytes = "byte list"

text \<open>An address is the pair \<open>(host, port)\<close> that the socket calls take and return.\<close>

type_synonym address = "string \<times> nat"

text \<open>
  The exceptions that the operations of the server raise. All of them are subclasses
  of Python's \<open>Exception\<close>; \<open>SocketTimeout\<close> is \<open>socket.timeout\<close>, \<open>OSError\<close>
  stands for every other error of a socket call, \<open>DNSError\<close> is what the DNS library
  raises on bytes it cannot decode, \<open>RuntimeError\<close> is what starting a thread raises.
\<close>

datatype exn =
    DNSError
  | SocketTimeout
  | PermissionError
  | OSError
  | UnboundLocalError
  | ValueError
  | RuntimeError

text \<open>
  The parsed form of a DNS message, with the attributes of the library's \<open>DNSRecord\<close>:
  the header (its \<open>id\<close> and the flag word), the question \<open>q\<close>, and the three record
  sections \<open>rr\<close> (answers), \<open>auth\<close> and \<open>ar\<close>.
\<close>

record question =
  qname :: "bytes list"
  qtype :: nat
  qclass :: nat

record resource =
  rname :: "bytes list"
  rtype :: nat
  rclass :: nat
  ttl :: int
  rdata :: bytes

record dnsrecord =
  hid :: nat
  hflags :: nat
  q :: question
  rr :: "resource list"
  auth :: "resource list"
  ar :: "resource list"

text \<open>
  The DNS library (\<open>dnslib\<close>) is not part of the repository. The server uses three of
  its operations, which the model takes as a parameter: \<open>DNSRecord.parse\<close>, which
  raises on malformed bytes, \<open>DNSRecord.pack\<close>, and the rendering \<open>str\<close> of a name.
\<close>

record codec =
  parse :: "bytes \<Rightarrow> exn + dnsrecord"
  pack :: "dnsrecord \<Rightarrow> exn + bytes"
  name_str :: "bytes list \<Rightarrow> bytes"

text \<open>
  The cache: \<open>{(qname, qtype): (raw_response_bytes, expiry_timestamp)}\<close>. The values
  of \<open>time.time()\<close> are modelled as rational numbers of seconds; the rounding of
  floating-point addition is not modelled.
\<close>

type_synonym key = "bytes \<times> nat"
type_synonym entry = "bytes \<times> rat"
type_synonym cache = "key \<rightharpoonup> entry"

datatype message =
    HandlerError address exn
  | ServerError exn
  | Listening address
  | PermissionDenied

datatype event =
    LockAcquire
  | LockRelease
  | CacheDelete key
  | CacheStore key entry
  | ClientSend bytes address
  | ClientSendError bytes address
  | SocketOpen
  | SetTimeout rat
  | UpstreamSend bytes address
  | UpstreamRecv nat
  | SocketClose
  | ServerSocketOpen
  | Bind address
  | RecvFrom nat
  | SpawnHandler bytes address
  | Print message
  | ProcessExit nat

text \<open>
  What the outside world decides during one run of the handler: the two readings of
  the clock (line 68 and line 91), and for each socket call whether it raises
  (\<open>None\<close>: it does not) or what it returns.
\<close>

record env =
  time_lookup :: rat
  time_store :: rat
  socket_new :: "exn option"
  up_sendto :: "exn option"
  up_recvfrom :: "exn + bytes"
  client_sendto :: "exn option"

subsection \<open>Configuration\<close>

definition HOST :: string where "HOST = ''0.0.0.0''"
definition PORT :: nat where "PORT = 53"
definition UPSTREAM_DNS :: string where "UPSTREAM_DNS = ''8.8.8.8''"
definition UPSTREAM_PORT :: nat where "UPSTREAM_PORT = 53"
definition SOCKET_TIMEOUT :: rat where "SOCKET_TIMEOUT = 3"

subsection \<open>\<open>forward_query\<close>\<close>

text \<open>
  The \<open>try\<close> block creates the socket, sets its timeout, sends and receives;
  \<open>except socket.timeout\<close> turns a timeout of either call into the result \<open>None\<close>;
  \<open>finally\<close> closes the socket. When \<open>socket.socket\<close> itself raises, \<open>sock\<close> was
  never assigned and the \<open>finally\<close> block raises \<open>UnboundLocalError\<close> in place of
  whatever was pending.
\<close>

definition forward_query :: "env \<Rightarrow> bytes \<Rightarrow> event list \<times> (exn + bytes option)" where
  "forward_query env data =
     (case socket_new env of
        Some e \<Rightarrow> ([], Inl UnboundLocalError)
      | None \<Rightarrow>
          (let sent = [SocketOpen, SetTimeout SOCKET_TIMEOUT,
                       UpstreamSend data (UPSTREAM_DNS, UPSTREAM_PORT)]
           in case up_sendto env of
                Some e \<Rightarrow>
                  (sent @ [SocketClose],
                   if e = SocketTimeout then Inr None else Inl e)
              | None \<Rightarrow>
                  (case up_recvfrom env of
                     Inl e \<Rightarrow>
                       (sent @ [UpstreamRecv 4096, SocketClose],
                        if e = SocketTimeout then Inr None else Inl e)
                   | Inr response \<Rightarrow>
                       (sent @ [UpstreamRecv 4096, SocketClose], Inr (Some response)))))"

subsection \<open>\<open>handle_client\<close>\<close>

text \<open>Python's \<open>min\<close> of a list; it raises \<open>ValueError\<close> on the empty list.\<close>

fun py_min :: "int list \<Rightarrow> exn + int" where
  "py_min [] = Inl ValueError"
| "py_min (x # xs) = Inr (fold min xs x)"

text \<open>Python's \<open>not response_data\<close>: true of \<open>None\<close> and of the empty byte string.\<close>

fun falsy :: "bytes option \<Rightarrow> bool" where
  "falsy None = True"
| "falsy (Some b) = (b = [])"

text \<open>
  Lines 65 to 76, the block \<open>with cache_lock:\<close>. The result \<open>Inr True\<close> is the
  \<open>return\<close> of line 73 and \<open>Inr False\<close> is falling out of the block. The lock is
  released when the block is left, by \<open>return\<close> and by an exception too, so
  \<open>LockRelease\<close> is the last event on every path. The clock is read only when the
  key is in the cache.
\<close>

definition check_cache ::
  "codec \<Rightarrow> env \<Rightarrow> cache \<Rightarrow> key \<Rightarrow> dnsrecord \<Rightarrow> address \<Rightarrow>
     cache \<times> event list \<times> (exn + bool)" where
  "check_cache lib env cache k request addr =
     (case cache k of
        None \<Rightarrow> (cache, [LockAcquire, LockRelease], Inr False)
      | Some (raw_resp, expiry) \<Rightarrow>
          if time_lookup env < expiry then
            (case parse lib raw_resp of
               Inl e \<Rightarrow> (cache, [LockAcquire, LockRelease], Inl e)
             | Inr cached_resp \<Rightarrow>
                 (case pack lib (cached_resp\<lparr>hid := hid request\<rparr>) of
                    Inl e \<Rightarrow> (cache, [LockAcquire, LockRelease], Inl e)
                  | Inr out \<Rightarrow>
                      (case client_sendto env of
                         Some e \<Rightarrow>
                           (cache, [LockAcquire, ClientSendError out addr, LockRelease], Inl e)
                       | None \<Rightarrow>
                           (cache, [LockAcquire, ClientSend out addr, LockRelease], Inr True))))
          else (cache(k := None), [LockAcquire, CacheDelete k, LockRelease], Inr False))"

text \<open>Lines 83 to 94: parse the upstream response, store it, send it to the client.\<close>

definition store_and_reply ::
  "codec \<Rightarrow> env \<Rightarrow> cache \<Rightarrow> key \<Rightarrow> bytes \<Rightarrow> address \<Rightarrow>
     cache \<times> event list \<times> (exn + unit)" where
  "store_and_reply lib env cache k response_data addr =
     (case parse lib response_data of
        Inl e \<Rightarrow> (cache, [], Inl e)
      | Inr response_record \<Rightarrow>
          (case (if rr response_record \<noteq> [] then py_min (map ttl (rr response_record))
                 else Inr 60) of
             Inl e \<Rightarrow> (cache, [], Inl e)
           | Inr t \<Rightarrow>
               (let stored = (response_data, time_store env + of_int t);
                    cache' = cache(k \<mapsto> stored);
                    ev = [LockAcquire, CacheStore k stored, LockRelease]
                in case client_sendto env of
                     Some e \<Rightarrow> (cache', ev @ [ClientSendError response_data addr], Inl e)
                   | None \<Rightarrow> (cache', ev @ [ClientSend response_data addr], Inr ()))))"

text \<open>
  Lines 79 to 94, the path of a cache miss: forward the query, drop it when the
  response is \<open>None\<close> or empty, otherwise store the response and reply.
\<close>

definition forward_miss ::
  "codec \<Rightarrow> env \<Rightarrow> cache \<Rightarrow> key \<Rightarrow> bytes \<Rightarrow> address \<Rightarrow>
     cache \<times> event list \<times> (exn + unit)" where
  "forward_miss lib env cache k data addr =
     (case forward_query env data of
        (ev2, Inl e) \<Rightarrow> (cache, ev2, Inl e)
      | (ev2, Inr response_data) \<Rightarrow>
          if falsy response_data then (cache, ev2, Inr ())
          else
            (case store_and_reply lib env cache k (the response_data) addr of
               (cache2, ev3, r) \<Rightarrow> (cache2, ev2 @ ev3, r)))"

text \<open>The body of the \<open>try\<close> of \<open>handle_client\<close>, lines 60 to 94.\<close>

definition handle_client_body ::
  "codec \<Rightarrow> env \<Rightarrow> cache \<Rightarrow> bytes \<Rightarrow> address \<Rightarrow> cache \<times> event list \<times> (exn + unit)" where
  "handle_client_body lib env cache data addr =
     (case parse lib data of
        Inl e \<Rightarrow> (cache, [], Inl e)
      | Inr request \<Rightarrow>
          (let k = (name_str lib (qname (q request)), qtype (q request))
           in case check_cache lib env cache k request addr of
                (cache1, ev1, Inl e) \<Rightarrow> (cache1, ev1, Inl e)
              | (cache1, ev1, Inr True) \<Rightarrow> (cache1, ev1, Inr ())
              | (cache1, ev1, Inr False) \<Rightarrow>
                  (case forward_miss lib env cache1 k data addr of
                     (cache2, ev, r) \<Rightarrow> (cache2, ev1 @ ev, r))))"

text \<open>
  \<open>handle_client\<close>: the body inside \<open>try\<close>, and \<open>except Exception as e\<close>, which
  prints the address and the exception. The result keeps the type of the body's, so
  that an exception leaving the handler would be an \<open>Inl\<close>.
\<close>

definition handle_client ::
  "codec \<Rightarrow> env \<Rightarrow> cache \<Rightarrow> bytes \<Rightarrow> address \<Rightarrow> cache \<times> event list \<times> (exn + unit)" where
  "handle_client lib env cache data addr =
     (case handle_client_body lib env cache data addr of
        (cache', ev, Inl e) \<Rightarrow> (cache', ev @ [Print (HandlerError addr e)], Inr ())
      | (cache', ev, Inr u) \<Rightarrow> (cache', ev, Inr u))"

subsection \<open>\<open>run_dns_server\<close>\<close>

text \<open>
  One iteration of \<open>while True\<close> is given the outcome of \<open>recvfrom(512)\<close> and of
  creating and starting the thread. The handler runs in that thread, so for the
  listener it is the event \<open>SpawnHandler\<close>.
\<close>

record iteration =
  recv :: "exn + (bytes \<times> address)"
  spawn :: "exn option"

definition loop_body :: "iteration \<Rightarrow> event list \<times> (exn + unit)" where
  "loop_body it =
     (case recv it of
        Inl e \<Rightarrow> ([RecvFrom 512], Inl e)
      | Inr (data, addr) \<Rightarrow>
          (case spawn it of
             Some e \<Rightarrow> ([RecvFrom 512], Inl e)
           | None \<Rightarrow> ([RecvFrom 512, SpawnHandler data addr], Inr ())))"

definition loop_iteration :: "iteration \<Rightarrow> event list \<times> (exn + unit)" where
  "loop_iteration it =
     (case loop_body it of
        (ev, Inl e) \<Rightarrow> (ev @ [Print (ServerError e)], Inr ())
      | (ev, Inr u) \<Rightarrow> (ev, Inr u))"

text \<open>
  The state of the server after the events so far: still in the receive loop, left by
  \<open>os._exit\<close>, or left by an exception that nothing caught.
\<close>

datatype server_state = Receiving | Exited nat | Raised exn

text \<open>
  The loop never returns, so it is run on the outcomes of its first iterations: the
  result is the trace of these iterations and the state they leave. An exception that
  left an iteration would end the loop.
\<close>

fun receive_loop :: "iteration list \<Rightarrow> event list \<times> server_state" where
  "receive_loop [] = ([], Receiving)"
| "receive_loop (it # its) =
     (case loop_iteration it of
        (ev, Inl e) \<Rightarrow> (ev, Raised e)
      | (ev, Inr u) \<Rightarrow> (case receive_loop its of (ev', s) \<Rightarrow> (ev @ ev', s)))"

record startup =
  server_socket_new :: "exn option"
  bind :: "exn option"

definition run_dns_server :: "startup \<Rightarrow> iteration list \<Rightarrow> event list \<times> server_state" where
  "run_dns_server st its =
     (case server_socket_new st of
        Some e \<Rightarrow> ([], Raised e)
      | None \<Rightarrow>
          (case bind st of
             Some e \<Rightarrow>
               if e = PermissionError
               then ([ServerSocketOpen, Bind (HOST, PORT), Print PermissionDenied, ProcessExit 1],
                     Exited 1)
               else ([ServerSocketOpen, Bind (HOST, PORT)], Raised e)
           | None \<Rightarrow>
               (case receive_loop its of
                  (ev, s) \<Rightarrow>
                    ([ServerSocketOpen, Bind (HOST, PORT), Print (Listening (HOST, PORT))] @ ev,
                     s))))"

subsection \<open>Reading a trace\<close>

text \<open>
  The events that happen while \<open>cache_lock\<close> is held: those after a \<open>LockAcquire\<close>
  and before the next \<open>LockRelease\<close>. The flag says whether the lock is held at the
  start of the trace.
\<close>

primrec held_events :: "event list \<Rightarrow> bool \<Rightarrow> event list" where
  "held_events [] held = []"
| "held_events (e # es) held =
     (if e = LockAcquire then held_events es True
      else if e = LockRelease then held_events es False
      else if held then e # held_events es held
      else held_events es held)"

text \<open>Whether the lock is held at the end of a trace.\<close>

primrec lock_held_after :: "event list \<Rightarrow> bool \<Rightarrow> bool" where
  "lock_held_after [] held = held"
| "lock_held_after (e # es) held =
     (if e = LockAcquire then lock_held_after es True
      else if e = LockRelease then lock_held_after es False
      else lock_held_after es held)"

text \<open>A send or a receive on a socket.\<close>

fun is_network_io :: "event \<Rightarrow> bool" where
  "is_network_io (ClientSend b a) = True"
| "is_network_io (ClientSendError b a) = True"
| "is_network_io (UpstreamSend b a) = True"
| "is_network_io (UpstreamRecv n) = True"
| "is_network_io (RecvFrom n) = True"
| "is_network_io e = False"

text \<open>A call of \<open>sendto\<close> on the server's socket, whether it raised or not.\<close>

fun is_client_send :: "event \<Rightarrow> bool" where
  "is_client_send (ClientSend b a) = True"
| "is_client_send (ClientSendError b a) = True"
| "is_client_send e = False"

text \<open>A datagram that went out to a client.\<close>

fun is_reply :: "event \<Rightarrow> bool" where
  "is_reply (ClientSend b a) = True"
| "is_reply e = False"

fun is_store :: "event \<Rightarrow> bool" where
  "is_store (CacheStore k v) = True"
| "is_store e = False"

fun is_upstream_send :: "event \<Rightarrow> bool" where
  "is_upstream_send (UpstreamSend b a) = True"
| "is_upstream_send e = False"

fun is_upstream_recv :: "event \<Rightarrow> bool" where
  "is_upstream_recv (UpstreamRecv n) = True"
| "is_upstream_recv e = False"

text \<open>
  The transaction id is the first two bytes of a DNS message, most significant byte
  first. \<open>overwrite_id\<close> is the specification's reply on a cache hit: the cached bytes
  with this field overwritten and every other byte kept.
\<close>

definition overwrite_id :: "nat \<Rightarrow> bytes \<Rightarrow> bytes" where
  "overwrite_id i raw = [of_nat (i div 256), of_nat (i mod 256)] @ drop 2 raw"

text \<open>The specification's TTL of a stored entry: the least TTL of the answers, or 60.\<close>

definition ttl_to_cache :: "dnsrecord \<Rightarrow> int" where
  "ttl_to_cache r = (if rr r = [] then 60 else Min (set (map ttl (rr r))))"

subsection \<open>A codec for DNS messages without name compression\<close>

text \<open>
  An instance of the library's interface, used to run the handler on concrete
  datagrams: the DNS wire format (a header of six 16-bit fields, the question, then
  the resource records of the three sections) restricted to messages with one
  question whose names are written out label by label. As in the wire format, the
  header's counts say how many records to read, and bytes after the last record are
  not looked at.
\<close>

fun get16 :: "bytes \<Rightarrow> (nat \<times> bytes) option" where
  "get16 (a # b # rest) = Some (unat a * 256 + unat b, rest)"
| "get16 _ = None"

fun get32 :: "bytes \<Rightarrow> (nat \<times> bytes) option" where
  "get32 (a # b # c # d # rest) =
     Some (((unat a * 256 + unat b) * 256 + unat c) * 256 + unat d, rest)"
| "get32 _ = None"

definition put16 :: "nat \<Rightarrow> bytes" where
  "put16 n = [of_nat (n div 256), of_nat (n mod 256)]"

definition put32 :: "nat \<Rightarrow> bytes" where
  "put32 n = put16 (n div 65536) @ put16 (n mod 65536)"

function get_name :: "bytes \<Rightarrow> (bytes list \<times> bytes) option" where
  "get_name [] = None"
| "get_name (l # rest) =
     (if l = 0 then Some ([], rest)
      else if 63 < unat l \<or> length rest < unat l then None
      else (case get_name (drop (unat l) rest) of
              None \<Rightarrow> None
            | Some (labels, rest') \<Rightarrow> Some (take (unat l) rest # labels, rest')))"
  by pat_completeness auto
termination
  by (relation "measure length") auto

definition put_name :: "bytes list \<Rightarrow> bytes" where
  "put_name labels = concat (map (\<lambda>l. of_nat (length l) # l) labels) @ [0]"

definition get_question :: "bytes \<Rightarrow> (question \<times> bytes) option" where
  "get_question bs =
     do { (n, bs1) \<leftarrow> get_name bs;
          (t, bs2) \<leftarrow> get16 bs1;
          (c, bs3) \<leftarrow> get16 bs2;
          Some (\<lparr>qname = n, qtype = t, qclass = c\<rparr>, bs3) }"

definition put_question :: "question \<Rightarrow> bytes" where
  "put_question x = put_name (qname x) @ put16 (qtype x) @ put16 (qclass x)"

definition get_resource :: "bytes \<Rightarrow> (resource \<times> bytes) option" where
  "get_resource bs =
     do { (n, bs1) \<leftarrow> get_name bs;
          (t, bs2) \<leftarrow> get16 bs1;
          (c, bs3) \<leftarrow> get16 bs2;
          (life, bs4) \<leftarrow> get32 bs3;
          (len, bs5) \<leftarrow> get16 bs4;
          if length bs5 < len then None
          else Some (\<lparr>rname = n, rtype = t, rclass = c, ttl = int life,
                      rdata = take len bs5\<rparr>, drop len bs5) }"

definition put_resource :: "resource \<Rightarrow> bytes" where
  "put_resource x =
     put_name (rname x) @ put16 (rtype x) @ put16 (rclass x) @ put32 (nat (ttl x)) @
     put16 (length (rdata x)) @ rdata x"

fun get_resources :: "nat \<Rightarrow> bytes \<Rightarrow> (resource list \<times> bytes) option" where
  "get_resources 0 bs = Some ([], bs)"
| "get_resources (Suc n) bs =
     do { (x, bs1) \<leftarrow> get_resource bs;
          (xs, bs2) \<leftarrow> get_resources n bs1;
          Some (x # xs, bs2) }"

definition wire_decode :: "bytes \<Rightarrow> dnsrecord option" where
  "wire_decode bs =
     do { (i, bs1) \<leftarrow> get16 bs;
          (f, bs2) \<leftarrow> get16 bs1;
          (qd, bs3) \<leftarrow> get16 bs2;
          (an, bs4) \<leftarrow> get16 bs3;
          (ns, bs5) \<leftarrow> get16 bs4;
          (nar, bs6) \<leftarrow> get16 bs5;
          if qd \<noteq> 1 then None
          else do {
            (x, bs7) \<leftarrow> get_question bs6;
            (answers, bs8) \<leftarrow> get_resources an bs7;
            (authority, bs9) \<leftarrow> get_resources ns bs8;
            (additional, bs10) \<leftarrow> get_resources nar bs9;
            Some \<lparr>hid = i, hflags = f, q = x, rr = answers, auth = authority,
                  ar = additional\<rparr> } }"

definition wire_parse :: "bytes \<Rightarrow> exn + dnsrecord" where
  "wire_parse bs = (case wire_decode bs of None \<Rightarrow> Inl DNSError | Some r \<Rightarrow> Inr r)"

definition wire_pack :: "dnsrecord \<Rightarrow> exn + bytes" where
  "wire_pack r =
     Inr (put16 (hid r) @ put16 (hflags r) @ put16 1 @ put16 (length (rr r)) @
          put16 (length (auth r)) @ put16 (length (ar r)) @ put_question (q r) @
          concat (map put_resource (rr r)) @ concat (map put_resource (auth r)) @
          concat (map put_resource (ar r)))"

text \<open>The labels of a name, each followed by a dot; the root is a single dot.\<close>

definition dotted :: "bytes list \<Rightarrow> bytes" where
  "dotted labels = (if labels = [] then [0x2E] else concat (map (\<lambda>l. l @ [0x2E]) labels))"

definition wire :: codec where
  "wire = \<lparr>parse = wire_parse, pack = wire_pack, name_str = dotted\<rparr>"

subsection \<open>Concrete datagrams\<close>

text \<open>
  A query for the address record of the name \<open>a.\<close>, with transaction id \<open>0x1234\<close>;
  the reply of the upstream resolver to it, with two answers of TTL 120 and 30; an
  earlier query for the same name, of id \<open>0xABCD\<close>; the reply with the two
  answers that this earlier query was given; and a reply without answers to the
  earlier query, followed by one more byte.
\<close>

definition query_a :: bytes where
  "query_a = [0x12, 0x34, 0x01, 0x00, 0, 1, 0, 0, 0, 0, 0, 0, 1, 0x61, 0, 0, 1, 0, 1]"

definition query_b :: bytes where
  "query_b = [0xAB, 0xCD, 0x01, 0x00, 0, 1, 0, 0, 0, 0, 0, 0, 1, 0x61, 0, 0, 1, 0, 1]"

definition answers_a :: bytes where
  "answers_a = [0x81, 0x80, 0, 1, 0, 2, 0, 0, 0, 0, 1, 0x61, 0, 0, 1, 0, 1,
                1, 0x61, 0, 0, 1, 0, 1, 0, 0, 0, 120, 0, 4, 93, 184, 216, 34,
                1, 0x61, 0, 0, 1, 0, 1, 0, 0, 0, 30, 0, 4, 93, 184, 216, 35]"

definition reply_a :: bytes where
  "reply_a = [0x12, 0x34] @ answers_a"

definition cached_a :: bytes where
  "cached_a = [0xAB, 0xCD] @ answers_a"

definition cached_padded :: bytes where
  "cached_padded =
     [0xAB, 0xCD, 0x81, 0x80, 0, 1, 0, 0, 0, 0, 0, 0, 1, 0x61, 0, 0, 1, 0, 1, 0xFF]"

definition question_a :: question where
  "question_a = \<lparr>qname = [[0x61]], qtype = 1, qclass = 1\<rparr>"

definition answer_a :: "int \<Rightarrow> byte \<Rightarrow> resource" where
  "answer_a t b =
     \<lparr>rname = [[0x61]], rtype = 1, rclass = 1, ttl = t, rdata = [93, 184, 216, b]\<rparr>"

definition request_a :: dnsrecord where
  "request_a = \<lparr>hid = 0x1234, hflags = 0x100, q = question_a, rr = [], auth = [], ar = []\<rparr>"

definition response_a :: "nat \<Rightarrow> dnsrecord" where
  "response_a i =
     \<lparr>hid = i, hflags = 0x8180, q = question_a, rr = [answer_a 120 34, answer_a 30 35],
      auth = [], ar = []\<rparr>"

definition response_empty :: "nat \<Rightarrow> dnsrecord" where
  "response_empty i =
     \<lparr>hid = i, hflags = 0x8180, q = question_a, rr = [], auth = [], ar = []\<rparr>"

definition key_a :: key where
  "key_a = ([0x61, 0x2E], 1)"

definition client :: address where
  "client = (''192.0.2.7'', 40000)"

text \<open>An environment in which every socket call succeeds and the upstream replies.\<close>

definition env_up :: env where
  "env_up = \<lparr>time_lookup = 990, time_store = 995, socket_new = None, up_sendto = None,
             up_recvfrom = Inr reply_a, client_sendto = None\<rparr>"

text \<open>
  The environment of the earlier query: the upstream resolver replies with the bytes
  \<open>cached_padded\<close>, and the clock reads 940 at the store.
\<close>

definition env_earlier :: env where
  "env_earlier = \<lparr>time_lookup = 930, time_store = 940, socket_new = None, up_sendto = None,
                  up_recvfrom = Inr cached_padded, client_sendto = None\<rparr>"

definition cache_a :: cache where
  "cache_a = [key_a \<mapsto> (cached_a, 1000)]"

definition cache_padded :: cache where
  "cache_padded = [key_a \<mapsto> (cached_padded, 1000)]"

section \<open>Evaluating the codec\<close>

lemma get_resources_numeral:
  "get_resources (numeral n) bs =
     do { (x, bs1) \<leftarrow> get_resource bs;
          (xs, bs2) \<leftarrow> get_resources (pred_numeral n) bs1;
          Some (x # xs, bs2) }"
  by (simp add: numeral_eq_Suc)

lemmas wire_defs = wire_parse_def wire_decode_def get_question_def get_resource_def
  get_resources_numeral wire_pack_def put16_def put32_def put_question_def put_resource_def
  put_name_def

lemmas data_defs = question_a_def answer_a_def request_a_def response_a_def
  response_empty_def

lemma parse_query_a: "parse wire query_a = Inr request_a"
  by (simp add: wire_def wire_defs query_a_def data_defs)

lemma parse_query_b: "parse wire query_b = Inr (request_a\<lparr>hid := 0xABCD\<rparr>)"
  by (simp add: wire_def wire_defs query_b_def data_defs)

lemma parse_reply_a: "parse wire reply_a = Inr (response_a 0x1234)"
  by (simp add: wire_def wire_defs reply_a_def answers_a_def data_defs)

lemma parse_cached_a: "parse wire cached_a = Inr (response_a 0xABCD)"
  by (simp add: wire_def wire_defs cached_a_def answers_a_def data_defs)

lemma parse_cached_padded: "parse wire cached_padded = Inr (response_empty 0xABCD)"
  by (simp add: wire_def wire_defs cached_padded_def data_defs)

lemma parse_garbage: "parse wire [0xFF] = Inl DNSError"
  by (simp add: wire_def wire_defs)

lemma pack_response_a: "pack wire (response_a 0x1234) = Inr reply_a"
  by (simp add: wire_def wire_defs reply_a_def answers_a_def data_defs)

lemma pack_cached_a: "pack wire (response_a 0xABCD) = Inr cached_a"
  by (simp add: wire_def wire_defs cached_a_def answers_a_def data_defs)

lemma pack_response_empty:
  "pack wire (response_empty 0x1234) =
     Inr [0x12, 0x34, 0x81, 0x80, 0, 1, 0, 0, 0, 0, 0, 0, 1, 0x61, 0, 0, 1, 0, 1]"
  by (simp add: wire_def wire_defs data_defs)

lemma key_of_request_a:
  "(name_str wire (qname (q request_a)), qtype (q request_a)) = key_a"
  by (simp add: wire_def dotted_def data_defs key_a_def)

lemma hid_request_a: "hid request_a = 0x1234"
  by (simp add: request_a_def)

lemma response_a_hid: "(response_a i)\<lparr>hid := j\<rparr> = response_a j"
  by (simp add: response_a_def)

lemma response_empty_hid: "(response_empty i)\<lparr>hid := j\<rparr> = response_empty j"
  by (simp add: response_empty_def)

lemma wire_pack_hid:
  "pack wire r = Inr b \<Longrightarrow> pack wire (r\<lparr>hid := i\<rparr>) = Inr (overwrite_id i b)"
  by (auto simp: wire_def wire_pack_def overwrite_id_def put16_def)

lemma overwrite_cached_padded:
  "overwrite_id 0x1234 cached_padded =
     [0x12, 0x34, 0x81, 0x80, 0, 1, 0, 0, 0, 0, 0, 0, 1, 0x61, 0, 0, 1, 0, 1, 0xFF]"
  by (simp add: overwrite_id_def cached_padded_def)

section \<open>The steps of the handler\<close>

lemma py_min_nonempty: "xs \<noteq> [] \<Longrightarrow> py_min xs = Inr (Min (set xs))"
proof (cases xs)
  case Nil
  assume "xs \<noteq> []"
  with Nil show ?thesis by simp
next
  case (Cons x ys)
  have "fold min ys x = Min (set (x # ys))"
    by (rule Min.set_eq_fold [symmetric])
  with Cons show ?thesis by simp
qed

lemma ttl_choice:
  "(if rr r \<noteq> [] then py_min (map ttl (rr r)) else Inr 60) = Inr (ttl_to_cache r)"
  by (simp add: ttl_to_cache_def py_min_nonempty)

text \<open>The handler in terms of its steps.\<close>

lemma body_miss:
  assumes "parse lib data = Inr request"
    and "check_cache lib env cache (name_str lib (qname (q request)), qtype (q request))
           request addr = (cache1, ev1, Inr False)"
    and "forward_miss lib env cache1 (name_str lib (qname (q request)), qtype (q request))
           data addr = (cache2, ev, r)"
  shows "handle_client_body lib env cache data addr = (cache2, ev1 @ ev, r)"
  using assms by (simp add: handle_client_body_def)

lemma hit_path:
  assumes "parse lib data = Inr request"
    and "cache (name_str lib (qname (q request)), qtype (q request)) = Some (raw, expiry)"
    and "time_lookup env < expiry"
    and "parse lib raw = Inr cached"
    and "pack lib (cached\<lparr>hid := hid request\<rparr>) = Inr out"
    and "client_sendto env = None"
  shows "handle_client lib env cache data addr =
           (cache, [LockAcquire, ClientSend out addr, LockRelease], Inr ())"
  using assms by (simp add: handle_client_def handle_client_body_def check_cache_def)

lemma check_cache_absent:
  "cache k = None \<Longrightarrow>
   check_cache lib env cache k request addr = (cache, [LockAcquire, LockRelease], Inr False)"
  by (simp add: check_cache_def)

lemma check_cache_expired:
  "cache k = Some (raw, expiry) \<Longrightarrow> \<not> time_lookup env < expiry \<Longrightarrow>
   check_cache lib env cache k request addr =
     (cache(k := None), [LockAcquire, CacheDelete k, LockRelease], Inr False)"
  by (simp add: check_cache_def)

lemma check_cache_valid:
  "cache k = Some (raw, expiry) \<Longrightarrow> time_lookup env < expiry \<Longrightarrow>
   fst (check_cache lib env cache k request addr) = cache \<and>
   snd (snd (check_cache lib env cache k request addr)) \<noteq> Inr False"
  by (simp add: check_cache_def split: sum.splits option.splits)

text \<open>Falling out of the lookup block, no datagram has gone to the client.\<close>

lemma check_cache_fall_through:
  "check_cache lib env cache k request addr = (cache1, ev1, Inr False) \<Longrightarrow>
   ev1 = [LockAcquire, LockRelease] \<or> ev1 = [LockAcquire, CacheDelete k, LockRelease]"
  by (auto simp: check_cache_def split: sum.splits option.splits if_splits)

lemma check_cache_raised:
  "check_cache lib env cache k request addr = (cache1, ev1, Inl e) \<Longrightarrow>
   cache1 = cache \<and> filter is_reply ev1 = [] \<and> filter is_store ev1 = []"
  by (auto simp: check_cache_def split: sum.splits option.splits if_splits)

lemma forward_query_no_reply:
  "filter is_reply (fst (forward_query env data)) = [] \<and>
   filter is_store (fst (forward_query env data)) = []"
  by (simp add: forward_query_def Let_def split: sum.splits option.splits)

lemma store_and_reply_raised:
  "store_and_reply lib env cache k response_data addr = (cache2, ev3, Inl e) \<Longrightarrow>
   filter is_reply ev3 = []"
  by (auto simp: store_and_reply_def ttl_choice Let_def split: sum.splits option.splits)

lemma forward_miss_raised:
  assumes "forward_miss lib env cache k data addr = (cache2, ev, Inl e)"
  shows "filter is_reply ev = []"
proof (cases "forward_query env data")
  case (Pair ev2 res)
  have quiet: "filter is_reply ev2 = []"
    using forward_query_no_reply [of env data] Pair by simp
  show ?thesis
  proof (cases res)
    case (Inl e')
    with assms Pair quiet show ?thesis
      by (simp add: forward_miss_def)
  next
    case (Inr response_data)
    show ?thesis
    proof (cases "falsy response_data")
      case True
      with assms Pair Inr show ?thesis
        by (simp add: forward_miss_def)
    next
      case False
      obtain c3 ev3 r3 where
        st: "store_and_reply lib env cache k (the response_data) addr = (c3, ev3, r3)"
        by (cases "store_and_reply lib env cache k (the response_data) addr") auto
      with assms Pair Inr False have "ev = ev2 @ ev3" and "r3 = Inl e"
        by (simp_all add: forward_miss_def)
      with st quiet store_and_reply_raised [of lib env cache k "the response_data" addr c3 ev3 e]
      show ?thesis by simp
    qed
  qed
qed

lemma forward_miss_dropped:
  "forward_query env data = (ev2, Inr response) \<Longrightarrow> falsy response \<Longrightarrow>
   forward_miss lib env cache k data addr = (cache, ev2, Inr ())"
  by (simp add: forward_miss_def)

lemma forward_miss_failed:
  "forward_query env data = (ev2, Inl e) \<Longrightarrow>
   forward_miss lib env cache k data addr = (cache, ev2, Inl e)"
  by (simp add: forward_miss_def)

lemma forward_miss_unparseable:
  "forward_query env data = (ev2, Inr (Some rd)) \<Longrightarrow> parse lib rd = Inl e \<Longrightarrow>
   \<exists>r. forward_miss lib env cache k data addr = (cache, ev2, r)"
  by (simp add: forward_miss_def store_and_reply_def)

lemma handle_client_of_body:
  "handle_client_body lib env cache data addr = (c, ev, r) \<Longrightarrow>
   handle_client lib env cache data addr =
     (c, ev @ (case r of Inl e \<Rightarrow> [Print (HandlerError addr e)] | Inr u \<Rightarrow> []), Inr ())"
  by (simp add: handle_client_def split: sum.splits)

text \<open>The whole run of the handler when the forwarded response is stored.\<close>

lemma miss_path:
  assumes "parse lib data = Inr request"
    and "k = (name_str lib (qname (q request)), qtype (q request))"
    and "check_cache lib env cache k request addr = (cache1, ev1, Inr False)"
    and "forward_query env data = (ev2, Inr (Some response_data))"
    and "response_data \<noteq> []"
    and "parse lib response_data = Inr response_record"
    and "stored = (response_data, time_store env + of_int (ttl_to_cache response_record))"
  shows "handle_client lib env cache data addr =
           (cache1(k \<mapsto> stored),
            ev1 @ ev2 @ [LockAcquire, CacheStore k stored, LockRelease] @
              (case client_sendto env of
                 None \<Rightarrow> [ClientSend response_data addr]
               | Some e \<Rightarrow> [ClientSendError response_data addr,
                            Print (HandlerError addr e)]),
            Inr ())"
proof -
  have st: "store_and_reply lib env cache1 k response_data addr =
              (cache1(k \<mapsto> stored),
               [LockAcquire, CacheStore k stored, LockRelease,
                if client_sendto env = None then ClientSend response_data addr
                else ClientSendError response_data addr],
               case client_sendto env of None \<Rightarrow> Inr () | Some e \<Rightarrow> Inl e)"
    using assms(6,7)
    by (simp add: store_and_reply_def ttl_choice Let_def split: option.splits)
  have fm: "forward_miss lib env cache1 k data addr =
              (cache1(k \<mapsto> stored),
               ev2 @ [LockAcquire, CacheStore k stored, LockRelease,
                if client_sendto env = None then ClientSend response_data addr
                else ClientSendError response_data addr],
               case client_sendto env of None \<Rightarrow> Inr () | Some e \<Rightarrow> Inl e)"
    using assms(4,5) st by (simp add: forward_miss_def)
  have body: "handle_client_body lib env cache data addr =
              (cache1(k \<mapsto> stored),
               ev1 @ ev2 @ [LockAcquire, CacheStore k stored, LockRelease,
                if client_sendto env = None then ClientSend response_data addr
                else ClientSendError response_data addr],
               case client_sendto env of None \<Rightarrow> Inr () | Some e \<Rightarrow> Inl e)"
    using body_miss [OF assms(1) assms(3) [unfolded assms(2)] fm [unfolded assms(2)]]
    by (simp add: assms(2))
  show ?thesis
    by (simp add: handle_client_of_body [OF body] split: option.splits)
qed

text \<open>The forwarder on the concrete environments.\<close>

lemma forward_up:
  "forward_query env_up query_a =
     ([SocketOpen, SetTimeout SOCKET_TIMEOUT, UpstreamSend query_a (UPSTREAM_DNS, UPSTREAM_PORT),
       UpstreamRecv 4096, SocketClose],
      Inr (Some reply_a))"
  by (simp add: forward_query_def env_up_def)

lemma forward_earlier:
  "forward_query env_earlier query_b =
     ([SocketOpen, SetTimeout SOCKET_TIMEOUT, UpstreamSend query_b (UPSTREAM_DNS, UPSTREAM_PORT),
       UpstreamRecv 4096, SocketClose],
      Inr (Some cached_padded))"
  by (simp add: forward_query_def env_earlier_def)

lemma reply_a_nonempty: "reply_a \<noteq> []"
  by (simp add: reply_a_def)

lemma ttl_response_a: "ttl_to_cache (response_a i) = 30"
  by (simp add: ttl_to_cache_def response_a_def answer_a_def)

lemma ttl_response_empty: "ttl_to_cache (response_empty i) = 60"
  by (simp add: ttl_to_cache_def response_empty_def)

text \<open>The earlier query leaves the padded response in the cache, to expire at 1000.\<close>

lemma run_earlier:
  "fst (handle_client wire env_earlier Map.empty query_b client) = cache_padded"
proof -
  have k: "key_a = (name_str wire (qname (q (request_a\<lparr>hid := 0xABCD\<rparr>))),
                    qtype (q (request_a\<lparr>hid := 0xABCD\<rparr>)))"
    using key_of_request_a by simp
  have cc: "check_cache wire env_earlier Map.empty key_a (request_a\<lparr>hid := 0xABCD\<rparr>) client =
              (Map.empty, [LockAcquire, LockRelease], Inr False)"
    by (simp add: check_cache_absent)
  have ne: "cached_padded \<noteq> []"
    by (simp add: cached_padded_def)
  show ?thesis
    using miss_path [OF parse_query_b k cc forward_earlier ne parse_cached_padded refl]
    by (simp add: ttl_response_empty env_earlier_def cache_padded_def)
qed

section \<open>The reply on a cache hit\<close>

text \<open>
  Claim C1, as the code has it. On a cache hit (the key is present, the clock is before
  the expiry, and neither the library nor the send raises) the handler sends one
  datagram and leaves the cache alone. The datagram is not the cached bytes patched in
  place: it is what \<open>pack\<close> makes of the parsed cached response after its header id
  was set to the id of the current query, every other field of the parsed record
  (the answers and their TTLs among them) being as parsed. It is the cached bytes
  with only the id field overwritten whenever \<open>pack\<close> writes the id into that field
  and restores the cached bytes from their parsed form.
\<close>

theorem cache_hit_reply:
  assumes "parse lib data = Inr request"
    and "cache (name_str lib (qname (q request)), qtype (q request)) = Some (raw, expiry)"
    and "time_lookup env < expiry"
    and "parse lib raw = Inr cached"
    and "pack lib (cached\<lparr>hid := hid request\<rparr>) = Inr out"
    and "client_sendto env = None"
  shows "handle_client lib env cache data addr =
           (cache, [LockAcquire, ClientSend out addr, LockRelease], Inr ())
         \<and> cached\<lparr>hid := hid request\<rparr> =
             \<lparr>hid = hid request, hflags = hflags cached, q = q cached, rr = rr cached,
              auth = auth cached, ar = ar cached\<rparr>
         \<and> ((\<forall>r i b. pack lib r = Inr b \<longrightarrow> pack lib (r\<lparr>hid := i\<rparr>) = Inr (overwrite_id i b))
              \<and> pack lib cached = Inr raw
            \<longrightarrow> out = overwrite_id (hid request) raw)"
proof (intro conjI impI)
  show "handle_client lib env cache data addr =
          (cache, [LockAcquire, ClientSend out addr, LockRelease], Inr ())"
    using assms by (rule hit_path)
next
  show "cached\<lparr>hid := hid request\<rparr> =
          \<lparr>hid = hid request, hflags = hflags cached, q = q cached, rr = rr cached,
           auth = auth cached, ar = ar cached\<rparr>"
    by simp
next
  assume "(\<forall>r i b. pack lib r = Inr b \<longrightarrow> pack lib (r\<lparr>hid := i\<rparr>) = Inr (overwrite_id i b))
     \<and> pack lib cached = Inr raw"
  then have "pack lib (cached\<lparr>hid := hid request\<rparr>) = Inr (overwrite_id (hid request) raw)"
    by blast
  with assms(5) show "out = overwrite_id (hid request) raw"
    by simp
qed

lemma run_hit_a:
  "handle_client wire env_up cache_a query_a client =
     (cache_a, [LockAcquire, ClientSend reply_a client, LockRelease], Inr ())"
  by (rule hit_path [where request = request_a and raw = cached_a and expiry = 1000
        and cached = "response_a 0xABCD"])
     (simp_all add: parse_query_a parse_cached_a key_of_request_a hid_request_a response_a_hid
        pack_response_a cache_a_def env_up_def)

theorem cache_hit_reply_witness:
  "handle_client wire env_up cache_a query_a client =
     (cache_a, [LockAcquire, ClientSend reply_a client, LockRelease], Inr ())
   \<and> reply_a = overwrite_id 0x1234 cached_a"
proof -
  have 1: "parse wire query_a = Inr request_a"
    by (rule parse_query_a)
  have 2: "cache_a (name_str wire (qname (q request_a)), qtype (q request_a)) =
             Some (cached_a, 1000)"
    by (simp add: key_of_request_a cache_a_def)
  have 3: "time_lookup env_up < 1000"
    by (simp add: env_up_def)
  have 4: "parse wire cached_a = Inr (response_a 0xABCD)"
    by (rule parse_cached_a)
  have 5: "pack wire ((response_a 0xABCD)\<lparr>hid := hid request_a\<rparr>) = Inr reply_a"
    by (simp add: hid_request_a response_a_hid pack_response_a)
  have 6: "client_sendto env_up = None"
    by (simp add: env_up_def)
  have 7: "\<forall>r i b. pack wire r = Inr b \<longrightarrow> pack wire (r\<lparr>hid := i\<rparr>) = Inr (overwrite_id i b)"
    by (simp add: wire_pack_hid)
  show ?thesis
    using cache_hit_reply [where lib = wire and cache = cache_a and env = env_up
        and addr = client, OF 1 2 3 4 5 6] 7 pack_cached_a
    by (simp add: hid_request_a)
qed

text \<open>
  C1 as stated fails where \<open>pack\<close> does not restore the cached bytes. The response
  that the earlier query left in the cache has one byte after its last record;
  parsing does not look at it and packing does not write it, so the reply to the
  current query is one byte shorter than the cached bytes with the id overwritten.
\<close>

theorem cache_hit_reply_counterexample:
  "fst (handle_client wire env_earlier Map.empty query_b client) = cache_padded
   \<and> handle_client wire env_up cache_padded query_a client =
     (cache_padded,
      [LockAcquire,
       ClientSend [0x12, 0x34, 0x81, 0x80, 0, 1, 0, 0, 0, 0, 0, 0, 1, 0x61, 0, 0, 1, 0, 1] client,
       LockRelease],
      Inr ())
   \<and> overwrite_id 0x1234 cached_padded =
       [0x12, 0x34, 0x81, 0x80, 0, 1, 0, 0, 0, 0, 0, 0, 1, 0x61, 0, 0, 1, 0, 1, 0xFF]
   \<and> fst (snd (handle_client wire env_up cache_padded query_a client)) \<noteq>
       [LockAcquire, ClientSend (overwrite_id 0x1234 cached_padded) client, LockRelease]"
proof -
  have run: "handle_client wire env_up cache_padded query_a client =
     (cache_padded,
      [LockAcquire,
       ClientSend [0x12, 0x34, 0x81, 0x80, 0, 1, 0, 0, 0, 0, 0, 0, 1, 0x61, 0, 0, 1, 0, 1] client,
       LockRelease],
      Inr ())"
    by (rule hit_path [where request = request_a and raw = cached_padded and expiry = 1000
          and cached = "response_empty 0xABCD"])
       (simp_all add: parse_query_a parse_cached_padded key_of_request_a hid_request_a
          response_empty_hid pack_response_empty cache_padded_def env_up_def)
  show ?thesis
    unfolding run overwrite_cached_padded run_earlier by simp
qed

section \<open>The lock and the network\<close>

lemma held_events_append:
  "held_events (xs @ ys) h = held_events xs h @ held_events ys (lock_held_after xs h)"
  by (induction xs arbitrary: h) simp_all

lemma lock_held_after_append:
  "lock_held_after (xs @ ys) h = lock_held_after ys (lock_held_after xs h)"
  by (induction xs arbitrary: h) simp_all

lemma check_cache_lock:
  assumes "check_cache lib env cache k request addr = (cache1, ev1, r)"
  shows "lock_held_after ev1 False = False"
    and "filter (\<lambda>e. is_network_io e \<and> \<not> is_client_send e) (held_events ev1 False) = []"
    and "filter is_network_io (held_events ev1 False) \<noteq> [] \<Longrightarrow>
         \<exists>raw expiry. cache k = Some (raw, expiry) \<and> time_lookup env < expiry"
  using assms
  by (auto simp: check_cache_def split: sum.splits option.splits if_splits)

lemma forward_query_lock:
  "lock_held_after (fst (forward_query env data)) False = False \<and>
   held_events (fst (forward_query env data)) False = []"
  by (simp add: forward_query_def Let_def split: sum.splits option.splits)

lemma store_and_reply_lock:
  assumes "store_and_reply lib env cache k response_data addr = (cache2, ev3, r)"
  shows "lock_held_after ev3 False = False"
    and "filter is_network_io (held_events ev3 False) = []"
  using assms
  by (auto simp: store_and_reply_def ttl_choice Let_def split: sum.splits option.splits)

lemma forward_miss_lock:
  assumes "forward_miss lib env cache k data addr = (cache2, ev, r)"
  shows "lock_held_after ev False = False \<and> filter is_network_io (held_events ev False) = []"
proof (cases "forward_query env data")
  case (Pair ev2 res)
  have fq: "lock_held_after ev2 False = False" "held_events ev2 False = []"
    using forward_query_lock [of env data] Pair by simp_all
  show ?thesis
  proof (cases "\<exists>response_data. res = Inr response_data \<and> \<not> falsy response_data")
    case False
    with assms Pair have "ev = ev2"
      by (auto simp: forward_miss_def split: sum.splits if_splits)
    with fq show ?thesis by simp
  next
    case True
    then obtain response_data where res: "res = Inr response_data" "\<not> falsy response_data"
      by blast
    obtain c3 ev3 r3 where
      st: "store_and_reply lib env cache k (the response_data) addr = (c3, ev3, r3)"
      by (cases "store_and_reply lib env cache k (the response_data) addr") auto
    with assms Pair res have "ev = ev2 @ ev3"
      by (simp add: forward_miss_def)
    with fq store_and_reply_lock [OF st] show ?thesis
      by (simp add: held_events_append lock_held_after_append)
  qed
qed

lemma body_lock:
  assumes "handle_client_body lib env cache data addr = (cache', ev, r)"
  shows "lock_held_after ev False = False"
    and "filter (\<lambda>e. is_network_io e \<and> \<not> is_client_send e) (held_events ev False) = []"
    and "filter is_network_io (held_events ev False) \<noteq> [] \<Longrightarrow>
         \<exists>request raw expiry.
             parse lib data = Inr request
           \<and> cache (name_str lib (qname (q request)), qtype (q request)) = Some (raw, expiry)
           \<and> time_lookup env < expiry"
proof -
  let ?other = "\<lambda>e. is_network_io e \<and> \<not> is_client_send e"
  have "lock_held_after ev False = False \<and>
        filter ?other (held_events ev False) = [] \<and>
        (filter is_network_io (held_events ev False) \<noteq> [] \<longrightarrow>
         (\<exists>request raw expiry.
             parse lib data = Inr request
           \<and> cache (name_str lib (qname (q request)), qtype (q request)) = Some (raw, expiry)
           \<and> time_lookup env < expiry))"
  proof (cases "parse lib data")
    case (Inl e)
    with assms have "ev = []"
      by (simp add: handle_client_body_def)
    then show ?thesis by simp
  next
    case (Inr request)
    let ?k = "(name_str lib (qname (q request)), qtype (q request))"
    obtain c1 ev1 r1 where cc: "check_cache lib env cache ?k request addr = (c1, ev1, r1)"
      by (cases "check_cache lib env cache ?k request addr") auto
    note lk = check_cache_lock [OF cc]
    show ?thesis
    proof (cases "r1 = Inr False")
      case False
      with assms Inr cc have "ev = ev1"
        by (cases r1) (auto simp: handle_client_body_def split: bool.splits)
      with lk Inr show ?thesis by simp
    next
      case True
      obtain c2 ev2 r2 where fm: "forward_miss lib env c1 ?k data addr = (c2, ev2, r2)"
        by (cases "forward_miss lib env c1 ?k data addr") auto
      with assms Inr cc True have "ev = ev1 @ ev2"
        by (simp add: handle_client_body_def)
      with lk forward_miss_lock [OF fm] Inr show ?thesis
        by (simp add: held_events_append lock_held_after_append filter_empty_conv)
    qed
  qed
  then show "lock_held_after ev False = False"
    and "filter ?other (held_events ev False) = []"
    and "filter is_network_io (held_events ev False) \<noteq> [] \<Longrightarrow>
         \<exists>request raw expiry.
             parse lib data = Inr request
           \<and> cache (name_str lib (qname (q request)), qtype (q request)) = Some (raw, expiry)
           \<and> time_lookup env < expiry"
    by blast+
qed

lemma handle_client_trace:
  "fst (snd (handle_client lib env cache data addr)) =
     fst (snd (handle_client_body lib env cache data addr)) \<or>
   (\<exists>e. fst (snd (handle_client lib env cache data addr)) =
     fst (snd (handle_client_body lib env cache data addr)) @ [Print (HandlerError addr e)])"
  by (auto simp: handle_client_def split: prod.splits sum.splits)

lemma held_events_print:
  "lock_held_after ev h = False \<Longrightarrow> held_events (ev @ [Print m]) h = held_events ev h"
  by (simp add: held_events_append)

text \<open>
  Claim C2, as the code has it. Whatever the handler does, no upstream send or
  receive happens while the lock is held, and a network operation happens under the
  lock only on a cache hit: there the reply is sent to the client inside the
  \<open>with cache_lock\<close> block, before the lock is released.
\<close>

theorem lock_held_only_for_hit_reply:
  "filter (\<lambda>e. is_network_io e \<and> \<not> is_client_send e)
     (held_events (fst (snd (handle_client lib env cache data addr))) False) = []
   \<and> (filter is_network_io
        (held_events (fst (snd (handle_client lib env cache data addr))) False) \<noteq> []
      \<longrightarrow> (\<exists>request raw expiry.
             parse lib data = Inr request
           \<and> cache (name_str lib (qname (q request)), qtype (q request)) = Some (raw, expiry)
           \<and> time_lookup env < expiry))"
proof -
  obtain c ev r where body: "handle_client_body lib env cache data addr = (c, ev, r)"
    by (cases "handle_client_body lib env cache data addr") auto
  have same: "held_events (fst (snd (handle_client lib env cache data addr))) False =
              held_events ev False"
    using handle_client_trace [of lib env cache data addr] body body_lock(1) [OF body]
    by (auto simp: held_events_print)
  show ?thesis
    unfolding same using body_lock(2,3) [OF body] by blast
qed

theorem lock_held_only_for_hit_reply_witness:
  "filter is_network_io
     (held_events (fst (snd (handle_client wire env_up cache_a query_a client))) False) \<noteq> []
   \<and> (\<exists>request raw expiry.
         parse wire query_a = Inr request
       \<and> cache_a (name_str wire (qname (q request)), qtype (q request)) = Some (raw, expiry)
       \<and> time_lookup env_up < expiry)"
  using lock_held_only_for_hit_reply [of wire env_up cache_a query_a client]
  by (simp add: run_hit_a)

text \<open>
  C2 as stated fails on a cache hit: the send of the reply is an event between the
  acquisition and the release of the lock.
\<close>

theorem lock_held_during_send_counterexample:
  "filter is_network_io
     (held_events (fst (snd (handle_client wire env_up cache_a query_a client))) False) =
   [ClientSend reply_a client]"
  by (simp add: run_hit_a)

section \<open>What is stored\<close>

text \<open>
  Claim C3. When the lookup falls through, the forwarder returns a non-empty
  response and the library parses it, the handler stores under the query's key the
  response bytes with the expiry \<open>time.time() + ttl\<close>, where \<open>ttl\<close> is the least
  TTL of the answer records and 60 when there is none.
\<close>

theorem stored_ttl_is_minimum:
  assumes "parse lib data = Inr request"
    and "k = (name_str lib (qname (q request)), qtype (q request))"
    and "check_cache lib env cache k request addr = (cache1, ev1, Inr False)"
    and "forward_query env data = (ev2, Inr (Some response_data))"
    and "response_data \<noteq> []"
    and "parse lib response_data = Inr response_record"
  shows "fst (handle_client lib env cache data addr) =
           cache1(k \<mapsto> (response_data, time_store env + of_int (ttl_to_cache response_record)))
         \<and> filter is_store (fst (snd (handle_client lib env cache data addr))) =
             [CacheStore k
                (response_data, time_store env + of_int (ttl_to_cache response_record))]
         \<and> (rr response_record = [] \<longrightarrow> ttl_to_cache response_record = 60)
         \<and> (rr response_record \<noteq> [] \<longrightarrow>
              ttl_to_cache response_record = Min (set (map ttl (rr response_record))))"
proof -
  let ?stored = "(response_data, time_store env + of_int (ttl_to_cache response_record))"
  have ev1: "filter is_store ev1 = []"
    using check_cache_fall_through [OF assms(3)] by auto
  have ev2: "filter is_store ev2 = []"
    using forward_query_no_reply [of env data] assms(4) by simp
  have "fst (handle_client lib env cache data addr) = cache1(k \<mapsto> ?stored)"
    and "filter is_store (fst (snd (handle_client lib env cache data addr))) =
           [CacheStore k ?stored]"
    using ev1 ev2 by (simp_all add: miss_path [OF assms refl] split: option.splits)
  then show ?thesis
    by (simp add: ttl_to_cache_def)
qed

theorem stored_ttl_is_minimum_witness:
  "fst (handle_client wire env_up Map.empty query_a client) =
     [key_a \<mapsto> (reply_a, 995 + 30)]
   \<and> filter is_store (fst (snd (handle_client wire env_up Map.empty query_a client))) =
       [CacheStore key_a (reply_a, 995 + 30)]
   \<and> Min (set (map ttl (rr (response_a 0x1234)))) = 30"
proof -
  have 3: "check_cache wire env_up Map.empty key_a request_a client =
             (Map.empty, [LockAcquire, LockRelease], Inr False)"
    by (simp add: check_cache_absent)
  have nonempty: "rr (response_a 0x1234) \<noteq> []"
    by (simp add: response_a_def)
  show ?thesis
    using stored_ttl_is_minimum [OF parse_query_a key_of_request_a [symmetric] 3 forward_up
        reply_a_nonempty parse_reply_a] nonempty
    by (simp add: ttl_response_a env_up_def)
qed

section \<open>A failed upstream exchange\<close>

text \<open>
  Claim C4. When the lookup falls through and the upstream exchange fails (the
  forwarder returns the timeout signal \<open>None\<close>, or raises, or returns bytes that the
  library does not parse), the handler stores nothing: the cache is the one the
  lookup left, and no datagram goes to the client.
\<close>

theorem no_store_after_failed_exchange:
  assumes "parse lib data = Inr request"
    and "k = (name_str lib (qname (q request)), qtype (q request))"
    and "check_cache lib env cache k request addr = (cache1, ev1, Inr False)"
    and "forward_query env data = (ev2, Inr None)
         \<or> (\<exists>e. forward_query env data = (ev2, Inl e))
         \<or> (\<exists>rd e. forward_query env data = (ev2, Inr (Some rd)) \<and> parse lib rd = Inl e)"
  shows "fst (handle_client lib env cache data addr) = cache1
         \<and> filter is_store (fst (snd (handle_client lib env cache data addr))) = []
         \<and> filter is_reply (fst (snd (handle_client lib env cache data addr))) = []"
proof -
  have ev1: "filter is_store ev1 = []" "filter is_reply ev1 = []"
    using check_cache_fall_through [OF assms(3)] by auto
  have ev2: "filter is_store ev2 = []" "filter is_reply ev2 = []"
    using forward_query_no_reply [of env data] assms(4) by auto
  have "\<exists>r. forward_miss lib env cache1 k data addr = (cache1, ev2, r)"
    using assms(4) forward_miss_dropped [of env data ev2 None lib cache1 k addr]
      forward_miss_failed [of env data ev2 _ lib cache1 k addr]
      forward_miss_unparseable [of env data ev2 _ lib _ cache1 k addr]
    by auto
  then obtain r where "forward_miss lib env cache1 k data addr = (cache1, ev2, r)" ..
  then have "handle_client_body lib env cache data addr = (cache1, ev1 @ ev2, r)"
    using body_miss [OF assms(1) assms(3) [unfolded assms(2)]] by (simp add: assms(2))
  with ev1 ev2 show ?thesis
    by (simp add: handle_client_def split: sum.splits)
qed

lemma forward_timeout:
  "forward_query (env_up\<lparr>up_recvfrom := Inl SocketTimeout\<rparr>) query_a =
     ([SocketOpen, SetTimeout SOCKET_TIMEOUT, UpstreamSend query_a (UPSTREAM_DNS, UPSTREAM_PORT),
       UpstreamRecv 4096, SocketClose],
      Inr None)"
  by (simp add: forward_query_def env_up_def)

lemma forward_garbage:
  "forward_query (env_up\<lparr>up_recvfrom := Inr [0xFF]\<rparr>) query_a =
     ([SocketOpen, SetTimeout SOCKET_TIMEOUT, UpstreamSend query_a (UPSTREAM_DNS, UPSTREAM_PORT),
       UpstreamRecv 4096, SocketClose],
      Inr (Some [0xFF]))"
  by (simp add: forward_query_def env_up_def)

theorem no_store_after_failed_exchange_witness:
  "fst (handle_client wire (env_up\<lparr>up_recvfrom := Inl SocketTimeout\<rparr>) Map.empty query_a client)
     = Map.empty
   \<and> filter is_store (fst (snd (handle_client wire (env_up\<lparr>up_recvfrom := Inl SocketTimeout\<rparr>)
        Map.empty query_a client))) = []
   \<and> fst (handle_client wire (env_up\<lparr>up_recvfrom := Inr [0xFF]\<rparr>) Map.empty query_a client)
     = Map.empty
   \<and> filter is_store (fst (snd (handle_client wire (env_up\<lparr>up_recvfrom := Inr [0xFF]\<rparr>)
        Map.empty query_a client))) = []"
proof -
  have 3: "check_cache wire env Map.empty key_a request_a client =
             (Map.empty, [LockAcquire, LockRelease], Inr False)" for env
    by (simp add: check_cache_absent)
  have timeout: "forward_query (env_up\<lparr>up_recvfrom := Inl SocketTimeout\<rparr>) query_a =
           ([SocketOpen, SetTimeout SOCKET_TIMEOUT,
             UpstreamSend query_a (UPSTREAM_DNS, UPSTREAM_PORT), UpstreamRecv 4096, SocketClose],
            Inr None)
         \<or> (\<exists>e. forward_query (env_up\<lparr>up_recvfrom := Inl SocketTimeout\<rparr>) query_a =
           ([SocketOpen, SetTimeout SOCKET_TIMEOUT,
             UpstreamSend query_a (UPSTREAM_DNS, UPSTREAM_PORT), UpstreamRecv 4096, SocketClose],
            Inl e))
         \<or> (\<exists>rd e. forward_query (env_up\<lparr>up_recvfrom := Inl SocketTimeout\<rparr>) query_a =
           ([SocketOpen, SetTimeout SOCKET_TIMEOUT,
             UpstreamSend query_a (UPSTREAM_DNS, UPSTREAM_PORT), UpstreamRecv 4096, SocketClose],
            Inr (Some rd)) \<and> parse wire rd = Inl e)"
    using forward_timeout by simp
  have garbage: "forward_query (env_up\<lparr>up_recvfrom := Inr [0xFF]\<rparr>) query_a =
           ([SocketOpen, SetTimeout SOCKET_TIMEOUT,
             UpstreamSend query_a (UPSTREAM_DNS, UPSTREAM_PORT), UpstreamRecv 4096, SocketClose],
            Inr None)
         \<or> (\<exists>e. forward_query (env_up\<lparr>up_recvfrom := Inr [0xFF]\<rparr>) query_a =
           ([SocketOpen, SetTimeout SOCKET_TIMEOUT,
             UpstreamSend query_a (UPSTREAM_DNS, UPSTREAM_PORT), UpstreamRecv 4096, SocketClose],
            Inl e))
         \<or> (\<exists>rd e. forward_query (env_up\<lparr>up_recvfrom := Inr [0xFF]\<rparr>) query_a =
           ([SocketOpen, SetTimeout SOCKET_TIMEOUT,
             UpstreamSend query_a (UPSTREAM_DNS, UPSTREAM_PORT), UpstreamRecv 4096, SocketClose],
            Inr (Some rd)) \<and> parse wire rd = Inl e)"
    using forward_garbage parse_garbage by simp
  show ?thesis
    using no_store_after_failed_exchange [OF parse_query_a key_of_request_a [symmetric] 3 timeout]
      no_store_after_failed_exchange [OF parse_query_a key_of_request_a [symmetric] 3 garbage]
    by simp
qed

section \<open>Expiry at lookup\<close>

text \<open>
  Claim C5. A cached entry is served exactly when the clock read at the lookup is
  strictly before its expiry: then the lookup keeps the entry and does not fall
  through to the forwarder. Otherwise the entry is deleted and the lookup falls
  through, the deletion being the only event between the acquisition and the release
  of the lock; and the handler goes on as it does when the key is absent, with the
  same final cache, the same result and, the deletion apart, the same trace.
\<close>

theorem lookup_validity_and_eviction:
  assumes "cache k = Some (raw, expiry)"
  shows "(snd (snd (check_cache lib env cache k request addr)) = Inr False
            \<longleftrightarrow> \<not> time_lookup env < expiry)
         \<and> (time_lookup env < expiry \<longrightarrow>
              fst (check_cache lib env cache k request addr) = cache)
         \<and> (\<not> time_lookup env < expiry \<longrightarrow>
              check_cache lib env cache k request addr =
                (cache(k := None), [LockAcquire, CacheDelete k, LockRelease], Inr False)
            \<and> check_cache lib env (cache(k := None)) k request addr =
                (cache(k := None), [LockAcquire, LockRelease], Inr False))
         \<and> (\<not> time_lookup env < expiry \<and> parse lib data = Inr request
              \<and> k = (name_str lib (qname (q request)), qtype (q request)) \<longrightarrow>
              fst (handle_client lib env cache data addr) =
                fst (handle_client lib env (cache(k := None)) data addr)
            \<and> snd (snd (handle_client lib env cache data addr)) =
                snd (snd (handle_client lib env (cache(k := None)) data addr))
            \<and> fst (snd (handle_client lib env cache data addr)) =
                LockAcquire # CacheDelete k #
                  tl (fst (snd (handle_client lib env (cache(k := None)) data addr))))"
proof (intro conjI impI)
  show "snd (snd (check_cache lib env cache k request addr)) = Inr False
          \<longleftrightarrow> \<not> time_lookup env < expiry"
    using assms check_cache_valid [of cache k raw expiry env lib request addr]
      check_cache_expired [of cache k raw expiry env lib request addr]
    by auto
next
  assume "time_lookup env < expiry"
  with assms show "fst (check_cache lib env cache k request addr) = cache"
    using check_cache_valid by blast
next
  assume "\<not> time_lookup env < expiry"
  with assms show "check_cache lib env cache k request addr =
      (cache(k := None), [LockAcquire, CacheDelete k, LockRelease], Inr False)"
    by (rule check_cache_expired)
next
  show "check_cache lib env (cache(k := None)) k request addr =
      (cache(k := None), [LockAcquire, LockRelease], Inr False)"
    by (simp add: check_cache_absent)
next
  assume a: "\<not> time_lookup env < expiry \<and> parse lib data = Inr request
              \<and> k = (name_str lib (qname (q request)), qtype (q request))"
  obtain c2 ev r where fm: "forward_miss lib env (cache(k := None)) k data addr = (c2, ev, r)"
    by (cases "forward_miss lib env (cache(k := None)) k data addr") auto
  have expired: "check_cache lib env cache k request addr =
      (cache(k := None), [LockAcquire, CacheDelete k, LockRelease], Inr False)"
    using assms a by (simp add: check_cache_expired)
  have absent: "check_cache lib env (cache(k := None)) k request addr =
      (cache(k := None), [LockAcquire, LockRelease], Inr False)"
    by (simp add: check_cache_absent)
  have b1: "handle_client_body lib env cache data addr =
      (c2, [LockAcquire, CacheDelete k, LockRelease] @ ev, r)"
    using a expired fm body_miss [of lib data request env cache addr] by simp
  have b2: "handle_client_body lib env (cache(k := None)) data addr =
      (c2, [LockAcquire, LockRelease] @ ev, r)"
    using a absent fm body_miss [of lib data request env "cache(k := None)" addr] by simp
  show "fst (handle_client lib env cache data addr) =
          fst (handle_client lib env (cache(k := None)) data addr)"
    and "snd (snd (handle_client lib env cache data addr)) =
          snd (snd (handle_client lib env (cache(k := None)) data addr))"
    and "fst (snd (handle_client lib env cache data addr)) =
          LockAcquire # CacheDelete k #
            tl (fst (snd (handle_client lib env (cache(k := None)) data addr)))"
    by (simp_all add: handle_client_of_body [OF b1] handle_client_of_body [OF b2])
qed

theorem lookup_validity_and_eviction_witness:
  "check_cache wire (env_up\<lparr>time_lookup := 1000\<rparr>) cache_a key_a request_a client =
     (cache_a(key_a := None), [LockAcquire, CacheDelete key_a, LockRelease], Inr False)
   \<and> fst (check_cache wire env_up cache_a key_a request_a client) = cache_a
   \<and> snd (snd (check_cache wire env_up cache_a key_a request_a client)) \<noteq> Inr False
   \<and> fst (snd (handle_client wire (env_up\<lparr>time_lookup := 1000\<rparr>) cache_a query_a client)) =
       LockAcquire # CacheDelete key_a #
         tl (fst (snd (handle_client wire (env_up\<lparr>time_lookup := 1000\<rparr>) (cache_a(key_a := None))
               query_a client)))"
proof -
  have entry: "cache_a key_a = Some (cached_a, 1000)"
    by (simp add: cache_a_def)
  show ?thesis
    using lookup_validity_and_eviction [where cache = cache_a and k = key_a and lib = wire
        and env = "env_up\<lparr>time_lookup := 1000\<rparr>" and request = request_a and addr = client
        and data = query_a, OF entry]
      lookup_validity_and_eviction [where cache = cache_a and k = key_a and lib = wire
        and env = env_up and request = request_a and addr = client and data = query_a,
        OF entry]
      parse_query_a key_of_request_a
    by (simp add: env_up_def)
qed

section \<open>The forwarder\<close>

text \<open>
  Claim C6, as the code has it. Every call of \<open>forward_query\<close> in which
  \<open>socket.socket\<close> returns a socket opens that one socket, sets the timeout, sends
  the query bytes as they are to the upstream address once, receives at most once,
  and closes the socket last, whatever the send and the receive did. It returns the
  received bytes when both succeed, \<open>None\<close> when either times out, and raises the
  error of the send or of the receive otherwise.
\<close>

theorem forward_query_single_attempt:
  assumes "forward_query env data = (tr, res)"
    and "socket_new env = None"
  shows "hd tr = SocketOpen \<and> last tr = SocketClose
         \<and> count_list tr SocketOpen = 1 \<and> count_list tr SocketClose = 1
         \<and> SetTimeout SOCKET_TIMEOUT \<in> set tr
         \<and> filter is_upstream_send tr = [UpstreamSend data (UPSTREAM_DNS, UPSTREAM_PORT)]
         \<and> length (filter is_upstream_recv tr) \<le> 1
         \<and> (up_sendto env = None \<longrightarrow>
              filter is_upstream_recv tr = [UpstreamRecv 4096]
            \<and> (\<forall>response. up_recvfrom env = Inr response \<longrightarrow> res = Inr (Some response))
            \<and> (up_recvfrom env = Inl SocketTimeout \<longrightarrow> res = Inr None)
            \<and> (\<forall>e. up_recvfrom env = Inl e \<and> e \<noteq> SocketTimeout \<longrightarrow> res = Inl e))
         \<and> (up_sendto env = Some SocketTimeout \<longrightarrow> res = Inr None)
         \<and> (\<forall>e. up_sendto env = Some e \<and> e \<noteq> SocketTimeout \<longrightarrow> res = Inl e)"
  using assms
  by (auto simp: forward_query_def Let_def split: option.splits sum.splits if_splits)

theorem forward_query_single_attempt_witness:
  "forward_query env_up query_a =
     ([SocketOpen, SetTimeout 3, UpstreamSend query_a (''8.8.8.8'', 53), UpstreamRecv 4096,
       SocketClose],
      Inr (Some reply_a))
   \<and> last [SocketOpen, SetTimeout 3, UpstreamSend query_a (''8.8.8.8'', 53), UpstreamRecv 4096,
            SocketClose] = SocketClose
   \<and> filter is_upstream_send
       [SocketOpen, SetTimeout 3, UpstreamSend query_a (''8.8.8.8'', 53), UpstreamRecv 4096,
        SocketClose] = [UpstreamSend query_a (''8.8.8.8'', 53)]"
proof -
  have run: "forward_query env_up query_a =
     ([SocketOpen, SetTimeout 3, UpstreamSend query_a (''8.8.8.8'', 53), UpstreamRecv 4096,
       SocketClose],
      Inr (Some reply_a))"
    using forward_up
    by (simp add: SOCKET_TIMEOUT_def UPSTREAM_DNS_def UPSTREAM_PORT_def)
  have sockets: "socket_new env_up = None" "up_sendto env_up = None"
    by (simp_all add: env_up_def)
  show ?thesis
    using forward_query_single_attempt [OF run sockets(1)] sockets(2)
    by (simp add: run UPSTREAM_DNS_def UPSTREAM_PORT_def)
qed

text \<open>
  C6 as stated, for every call and every exit path, fails when \<open>socket.socket\<close>
  itself raises, as it does when the process is out of file descriptors: no socket
  is opened, nothing is sent and nothing is closed, and the error that leaves the
  call is the \<open>UnboundLocalError\<close> of the \<open>finally\<close> block, whose \<open>sock\<close> was never
  assigned.
\<close>

theorem forward_query_no_socket_counterexample:
  "forward_query (env_up\<lparr>socket_new := Some OSError\<rparr>) query_a = ([], Inl UnboundLocalError)
   \<and> count_list (fst (forward_query (env_up\<lparr>socket_new := Some OSError\<rparr>) query_a))
        SocketOpen = 0
   \<and> filter is_upstream_send (fst (forward_query (env_up\<lparr>socket_new := Some OSError\<rparr>) query_a))
        = []
   \<and> count_list (fst (forward_query (env_up\<lparr>socket_new := Some OSError\<rparr>) query_a))
        SocketClose = 0"
  by (simp add: forward_query_def env_up_def)

section \<open>Exceptions in the handler\<close>

lemma body_raised_no_reply:
  assumes "handle_client_body lib env cache data addr = (c, ev, Inl e)"
  shows "filter is_reply ev = []"
proof (cases "parse lib data")
  case (Inl e')
  with assms show ?thesis
    by (simp add: handle_client_body_def)
next
  case (Inr request)
  let ?k = "(name_str lib (qname (q request)), qtype (q request))"
  obtain c1 ev1 r1 where cc: "check_cache lib env cache ?k request addr = (c1, ev1, r1)"
    by (cases "check_cache lib env cache ?k request addr") auto
  show ?thesis
  proof (cases r1)
    case (Inl e1)
    with assms Inr cc have "ev = ev1"
      by (simp add: handle_client_body_def)
    with check_cache_raised [of lib env cache ?k request addr c1 ev1 e1] cc Inl
    show ?thesis by simp
  next
    case returned: (Inr b)
    show ?thesis
    proof (cases b)
      case True
      with assms Inr cc returned show ?thesis
        by (simp add: handle_client_body_def)
    next
      case False
      obtain c2 ev2 r2 where fm: "forward_miss lib env c1 ?k data addr = (c2, ev2, r2)"
        by (cases "forward_miss lib env c1 ?k data addr") auto
      with assms Inr cc returned False have ev: "ev = ev1 @ ev2" and r2: "r2 = Inl e"
        by (simp_all add: handle_client_body_def)
      have "filter is_reply ev1 = []"
        using check_cache_fall_through [of lib env cache ?k request addr c1 ev1] cc returned False
        by auto
      moreover have "filter is_reply ev2 = []"
        using forward_miss_raised [of lib env c1 ?k data addr c2 ev2 e] fm r2 by simp
      ultimately show ?thesis
        using ev by simp
    qed
  qed
qed

text \<open>
  Claim C7. The handler never lets an exception out: its result is a normal return
  whatever its inputs. When the body of its \<open>try\<close> raises, at the parse, in the
  lookup block, in the forwarder, at the store or at a send, the handler prints the
  error with the address of the client, and no datagram has gone to the client.
\<close>

theorem handler_contains_exceptions:
  "snd (snd (handle_client lib env cache data addr)) = Inr ()
   \<and> (\<forall>c ev e. handle_client_body lib env cache data addr = (c, ev, Inl e) \<longrightarrow>
          handle_client lib env cache data addr =
            (c, ev @ [Print (HandlerError addr e)], Inr ())
        \<and> filter is_reply (ev @ [Print (HandlerError addr e)]) = [])"
proof (intro conjI allI impI)
  obtain c ev r where "handle_client_body lib env cache data addr = (c, ev, r)"
    by (cases "handle_client_body lib env cache data addr") auto
  then show "snd (snd (handle_client lib env cache data addr)) = Inr ()"
    by (simp add: handle_client_of_body)
next
  fix c ev e
  assume body: "handle_client_body lib env cache data addr = (c, ev, Inl e)"
  then show "handle_client lib env cache data addr =
               (c, ev @ [Print (HandlerError addr e)], Inr ())"
    by (simp add: handle_client_of_body)
  show "filter is_reply (ev @ [Print (HandlerError addr e)]) = []"
    using body_raised_no_reply [OF body] by simp
qed

lemma forward_refused:
  "forward_query (env_up\<lparr>up_recvfrom := Inl OSError\<rparr>) query_a =
     ([SocketOpen, SetTimeout SOCKET_TIMEOUT, UpstreamSend query_a (UPSTREAM_DNS, UPSTREAM_PORT),
       UpstreamRecv 4096, SocketClose],
      Inl OSError)"
  by (simp add: forward_query_def env_up_def)

theorem handler_contains_exceptions_witness:
  "handle_client_body wire (env_up\<lparr>up_recvfrom := Inl OSError\<rparr>) Map.empty query_a client =
     (Map.empty,
      [LockAcquire, LockRelease, SocketOpen, SetTimeout SOCKET_TIMEOUT,
       UpstreamSend query_a (UPSTREAM_DNS, UPSTREAM_PORT), UpstreamRecv 4096, SocketClose],
      Inl OSError)
   \<and> handle_client wire (env_up\<lparr>up_recvfrom := Inl OSError\<rparr>) Map.empty query_a client =
     (Map.empty,
      [LockAcquire, LockRelease, SocketOpen, SetTimeout SOCKET_TIMEOUT,
       UpstreamSend query_a (UPSTREAM_DNS, UPSTREAM_PORT), UpstreamRecv 4096, SocketClose,
       Print (HandlerError client OSError)],
      Inr ())"
proof -
  have body: "handle_client_body wire (env_up\<lparr>up_recvfrom := Inl OSError\<rparr>) Map.empty query_a
      client =
     (Map.empty,
      [LockAcquire, LockRelease] @ [SocketOpen, SetTimeout SOCKET_TIMEOUT,
       UpstreamSend query_a (UPSTREAM_DNS, UPSTREAM_PORT), UpstreamRecv 4096, SocketClose],
      Inl OSError)"
    by (rule body_miss [OF parse_query_a])
       (simp_all add: check_cache_absent forward_miss_failed [OF forward_refused])
  show ?thesis
    using handler_contains_exceptions [of wire "env_up\<lparr>up_recvfrom := Inl OSError\<rparr>"
        Map.empty query_a client] body
    by simp
qed

section \<open>An empty response\<close>

text \<open>
  Claim C9. When the lookup falls through and the forwarder returns a falsy value,
  \<open>None\<close> or the empty byte string, the handler returns at once: the cache is as the
  lookup left it, nothing is stored and no datagram goes to the client. A handler
  whose upstream receive returns the empty byte string does exactly what it does
  when that receive times out.
\<close>

theorem empty_response_dropped:
  assumes "parse lib data = Inr request"
    and "k = (name_str lib (qname (q request)), qtype (q request))"
    and "check_cache lib env cache k request addr = (cache1, ev1, Inr False)"
    and "forward_query env data = (ev2, Inr response)"
    and "falsy response"
  shows "handle_client lib env cache data addr = (cache1, ev1 @ ev2, Inr ())
         \<and> filter is_reply (ev1 @ ev2) = []
         \<and> filter is_store (ev1 @ ev2) = []
         \<and> handle_client lib (env\<lparr>up_recvfrom := Inr []\<rparr>) cache data addr =
             handle_client lib (env\<lparr>up_recvfrom := Inl SocketTimeout\<rparr>) cache data addr"
proof (intro conjI)
  have "forward_miss lib env cache1 k data addr = (cache1, ev2, Inr ())"
    using assms(4,5) by (rule forward_miss_dropped)
  then have "handle_client_body lib env cache data addr = (cache1, ev1 @ ev2, Inr ())"
    using body_miss [OF assms(1) assms(3) [unfolded assms(2)]] by (simp add: assms(2))
  then show "handle_client lib env cache data addr = (cache1, ev1 @ ev2, Inr ())"
    by (simp add: handle_client_of_body)
next
  show "filter is_reply (ev1 @ ev2) = []"
    using check_cache_fall_through [OF assms(3)] forward_query_no_reply [of env data] assms(4)
    by auto
next
  show "filter is_store (ev1 @ ev2) = []"
    using check_cache_fall_through [OF assms(3)] forward_query_no_reply [of env data] assms(4)
    by auto
next
  have fq: "forward_query (env\<lparr>up_recvfrom := Inr []\<rparr>) data =
              (fst (forward_query (env\<lparr>up_recvfrom := Inl SocketTimeout\<rparr>) data),
               if socket_new env = None \<and> up_sendto env = None then Inr (Some [])
               else snd (forward_query (env\<lparr>up_recvfrom := Inl SocketTimeout\<rparr>) data))"
    and ft: "socket_new env = None \<and> up_sendto env = None \<Longrightarrow>
             snd (forward_query (env\<lparr>up_recvfrom := Inl SocketTimeout\<rparr>) data) = Inr None"
    by (simp_all add: forward_query_def Let_def split: option.splits)
  have fm: "forward_miss lib (env\<lparr>up_recvfrom := Inr []\<rparr>) c k' data addr =
            forward_miss lib (env\<lparr>up_recvfrom := Inl SocketTimeout\<rparr>) c k' data addr" for c k'
  proof (cases "socket_new env = None \<and> up_sendto env = None")
    case True
    obtain tr rt where
      t: "forward_query (env\<lparr>up_recvfrom := Inl SocketTimeout\<rparr>) data = (tr, rt)"
      by (cases "forward_query (env\<lparr>up_recvfrom := Inl SocketTimeout\<rparr>) data") auto
    with ft True have "rt = Inr None"
      by simp
    with t fq True show ?thesis
      by (simp add: forward_miss_def)
  next
    case False
    have same: "forward_query (env\<lparr>up_recvfrom := Inr []\<rparr>) data =
          forward_query (env\<lparr>up_recvfrom := Inl SocketTimeout\<rparr>) data"
      using False
      by (cases "forward_query (env\<lparr>up_recvfrom := Inl SocketTimeout\<rparr>) data")
         (auto simp: fq)
    have st: "store_and_reply lib (env\<lparr>up_recvfrom := x\<rparr>) c k' rd addr =
          store_and_reply lib env c k' rd addr" for x rd
      by (simp add: store_and_reply_def Let_def split: sum.splits)
    show ?thesis
      by (simp add: forward_miss_def same st split: prod.splits sum.splits)
  qed
  have cc: "check_cache lib (env\<lparr>up_recvfrom := x\<rparr>) cache k' rq addr =
            check_cache lib env cache k' rq addr" for x k' rq
    by (simp add: check_cache_def split: option.splits sum.splits prod.splits)
  have "handle_client_body lib (env\<lparr>up_recvfrom := Inr []\<rparr>) cache data addr =
        handle_client_body lib (env\<lparr>up_recvfrom := Inl SocketTimeout\<rparr>) cache data addr"
    by (simp add: handle_client_body_def cc fm Let_def
          split: prod.splits sum.splits bool.splits)
  then show "handle_client lib (env\<lparr>up_recvfrom := Inr []\<rparr>) cache data addr =
        handle_client lib (env\<lparr>up_recvfrom := Inl SocketTimeout\<rparr>) cache data addr"
    by (simp add: handle_client_def)
qed

lemma forward_empty:
  "forward_query (env_up\<lparr>up_recvfrom := Inr []\<rparr>) query_a =
     ([SocketOpen, SetTimeout SOCKET_TIMEOUT, UpstreamSend query_a (UPSTREAM_DNS, UPSTREAM_PORT),
       UpstreamRecv 4096, SocketClose],
      Inr (Some []))"
  by (simp add: forward_query_def env_up_def)

theorem empty_response_dropped_witness:
  "handle_client wire (env_up\<lparr>up_recvfrom := Inr []\<rparr>) Map.empty query_a client =
     (Map.empty,
      [LockAcquire, LockRelease, SocketOpen, SetTimeout SOCKET_TIMEOUT,
       UpstreamSend query_a (UPSTREAM_DNS, UPSTREAM_PORT), UpstreamRecv 4096, SocketClose],
      Inr ())"
proof -
  have 3: "check_cache wire (env_up\<lparr>up_recvfrom := Inr []\<rparr>) Map.empty key_a request_a client =
             (Map.empty, [LockAcquire, LockRelease], Inr False)"
    by (simp add: check_cache_absent)
  have 5: "falsy (Some [])"
    by simp
  show ?thesis
    using empty_response_dropped [OF parse_query_a key_of_request_a [symmetric] 3 forward_empty 5]
    by simp
qed

section \<open>The listener\<close>

text \<open>
  Claim C8. When \<open>bind\<close> raises \<open>PermissionError\<close>, the server prints the diagnostic
  and leaves the process with \<open>os._exit(1)\<close>: it has bound once, to the configured
  address, and it never reaches the receive loop, whatever datagrams would have come.
\<close>

theorem bind_permission_error_exits:
  "run_dns_server \<lparr>server_socket_new = None, bind = Some PermissionError\<rparr> its =
     ([ServerSocketOpen, Bind (HOST, PORT), Print PermissionDenied, ProcessExit 1], Exited 1)"
  by (simp add: run_dns_server_def)

theorem bind_permission_error_exits_witness:
  "run_dns_server \<lparr>server_socket_new = None, bind = Some PermissionError\<rparr>
     [\<lparr>recv = Inr (query_a, client), spawn = None\<rparr>] =
     ([ServerSocketOpen, Bind (''0.0.0.0'', 53), Print PermissionDenied, ProcessExit 1],
      Exited 1)"
  using bind_permission_error_exits [of "[\<lparr>recv = Inr (query_a, client), spawn = None\<rparr>]"]
  by (simp add: HOST_def PORT_def)

lemma loop_iteration_returns: "snd (loop_iteration it) = Inr ()"
  by (simp add: loop_iteration_def split: prod.splits sum.splits)

lemma loop_iteration_trace:
  "count_list (fst (loop_iteration it)) (RecvFrom 512) = 1 \<and>
   (\<forall>e. snd (loop_body it) = Inl e \<longrightarrow> Print (ServerError e) \<in> set (fst (loop_iteration it)))"
  by (simp add: loop_iteration_def loop_body_def split: prod.splits sum.splits option.splits)

lemma receive_loop_Cons:
  "receive_loop (it # its) =
     (fst (loop_iteration it) @ fst (receive_loop its), snd (receive_loop its))"
  using loop_iteration_returns [of it]
  by (cases "loop_iteration it") (simp split: prod.splits)

text \<open>
  Claim C10. However many iterations of the receive loop have run and whatever was
  raised in them, by \<open>recvfrom\<close> or by starting the thread, the loop is still
  receiving: every iteration has made its \<open>recvfrom\<close>, and every exception raised in
  an iteration was printed.
\<close>

theorem receive_loop_survives:
  "snd (receive_loop its) = Receiving
   \<and> count_list (fst (receive_loop its)) (RecvFrom 512) = length its
   \<and> (\<forall>it \<in> set its. \<forall>e. snd (loop_body it) = Inl e \<longrightarrow>
          Print (ServerError e) \<in> set (fst (receive_loop its)))
   \<and> snd (run_dns_server \<lparr>server_socket_new = None, bind = None\<rparr> its) = Receiving"
proof -
  have loop: "snd (receive_loop its) = Receiving
     \<and> count_list (fst (receive_loop its)) (RecvFrom 512) = length its
     \<and> (\<forall>it \<in> set its. \<forall>e. snd (loop_body it) = Inl e \<longrightarrow>
          Print (ServerError e) \<in> set (fst (receive_loop its)))"
  proof (induction its)
    case Nil
    show ?case by simp
  next
    case (Cons it its)
    then show ?case
      using loop_iteration_trace [of it]
      by (auto simp: receive_loop_Cons simp del: receive_loop.simps)
  qed
  then have "snd (run_dns_server \<lparr>server_socket_new = None, bind = None\<rparr> its) = Receiving"
    by (auto simp: run_dns_server_def split: prod.splits)
  with loop show ?thesis by simp
qed

theorem receive_loop_survives_witness:
  "receive_loop
     [\<lparr>recv = Inl OSError, spawn = None\<rparr>,
      \<lparr>recv = Inr (query_a, client), spawn = Some RuntimeError\<rparr>,
      \<lparr>recv = Inr (query_a, client), spawn = None\<rparr>] =
     ([RecvFrom 512, Print (ServerError OSError),
       RecvFrom 512, Print (ServerError RuntimeError),
       RecvFrom 512, SpawnHandler query_a client],
      Receiving)
   \<and> snd (loop_body \<lparr>recv = Inl OSError, spawn = None\<rparr>) = Inl OSError"
  using receive_loop_survives
    [of "[\<lparr>recv = Inl OSError, spawn = None\<rparr>,
          \<lparr>recv = Inr (query_a, client), spawn = Some RuntimeError\<rparr>,
          \<lparr>recv = Inr (query_a, client), spawn = None\<rparr>]"]
  by (simp add: loop_iteration_def loop_body_def)

end
